theory Spec2Isabelle
  imports Main
begin

section \<open>Shared vocabulary\<close>

text \<open>
  \<^verbatim>\<open>SupportedLang\<close> of \<^verbatim>\<open>constants.ts\<close> is the union \<^verbatim>\<open>'zh-CN' | 'en'\<close>.
\<close>

datatype SupportedLang = ZhCN | En

text \<open>
  A thrown JavaScript value. The sources only ever read \<^verbatim>\<open>error.message\<close>, and they read it
  through \<^verbatim>\<open>?.\<close>, so the field may be missing.
\<close>

record js_error =
  message :: "string option"

text \<open>
  One line written to the console: the stream, the \<^verbatim>\<open>ansis\<close> colour, the leading glyph of
  the template literal (the sources use non-ASCII glyphs, named here), the text, and the
  error object passed as a second argument to \<^verbatim>\<open>console.error\<close>, if any.
\<close>

datatype stream = Stdout | Stderr
datatype colour = Plain | Green | Cyan | Yellow | Red | Blue | Gray
datatype glyph = NoGlyph | CheckMark | PackageBox | WarnSign | CrossMark | InfoSign

record line =
  dest :: stream
  ink :: colour
  mark :: glyph
  body :: string
  detail :: "js_error option"

definition say :: "stream \<Rightarrow> colour \<Rightarrow> glyph \<Rightarrow> string \<Rightarrow> line" where
  "say st c g t = \<lparr>dest = st, ink = c, mark = g, body = t, detail = None\<rparr>"

text \<open>\<^verbatim>\<open>String.prototype.includes\<close>: does \<open>sub\<close> occur somewhere in \<open>s\<close>?\<close>

fun includes_str :: "string \<Rightarrow> string \<Rightarrow> bool" where
  "includes_str [] sub = (sub = [])"
| "includes_str (c # cs) sub = (take (length sub) (c # cs) = sub \<or> includes_str cs sub)"

section \<open>The external tool probe (\<^verbatim>\<open>src/unnamed/part_000\<close>)\<close>

subsection \<open>Subprocesses and logical time\<close>

text \<open>
  \<^verbatim>\<open>child_process.exec\<close> runs a shell command. What the command does is the world's
  business: it exits after some milliseconds, either with an error (non-zero exit, command
  not found) or with its output, or it never exits. \<^verbatim>\<open>exec\<close> reports a spawn failure
  through its callback as well, so a failure to start is an exit with an error.
\<close>

record exec_output =
  stdout :: string
  stderr :: string

datatype proc = Exits nat "js_error + exec_output" | Hangs

type_synonym shell = "string \<Rightarrow> proc"

text \<open>
  The observable state of one run: a clock in milliseconds, every subprocess spawned so far
  (command, start time, and the time it exits, if it ever does), and the console.
\<close>

record spawn =
  cmd :: string
  started :: nat
  exited :: "nat option"

record sys =
  clock :: nat
  spawned :: "spawn list"
  console :: "line list"

definition exits_at :: "shell \<Rightarrow> string \<Rightarrow> nat \<Rightarrow> nat option" where
  "exits_at sh c t = (case sh c of Exits d r \<Rightarrow> Some (t + d) | Hangs \<Rightarrow> None)"

definition launch :: "shell \<Rightarrow> string \<Rightarrow> sys \<Rightarrow> sys" where
  "launch sh c s =
     s\<lparr>spawned := spawned s @ [\<lparr>cmd = c, started = clock s, exited = exits_at sh c (clock s)\<rparr>]\<rparr>"

definition emit :: "line \<Rightarrow> sys \<Rightarrow> sys" where
  "emit l s = s\<lparr>console := console s @ [l]\<rparr>"

text \<open>
  \<^verbatim>\<open>const execAsync = promisify(exec)\<close>, awaited: the subprocess is spawned, and the caller
  resumes when it has exited, with the rejection (\<open>Inl\<close>) or the output (\<open>Inr\<close>). A
  subprocess that never exits leaves the caller suspended for ever: \<open>None\<close>.
\<close>

definition execAsync :: "shell \<Rightarrow> string \<Rightarrow> sys \<Rightarrow> ((js_error + exec_output) \<times> sys) option" where
  "execAsync sh c s =
     (case sh c of
        Hangs \<Rightarrow> None
      | Exits d r \<Rightarrow> Some (r, (launch sh c s)\<lparr>clock := clock s + d\<rparr>))"

subsection \<open>The regular expression \<^verbatim>\<open>/(\d+\.\d+\.\d+)/\<close>\<close>

text \<open>
  The pattern is a sequence of pieces: a single atom, or an atom under the greedy
  quantifier \<^verbatim>\<open>+\<close>. \<^verbatim>\<open>\d\<close> is an ASCII digit; \<^verbatim>\<open>\.\<close> is the literal dot.
\<close>

datatype atom = DigitClass | Lit char
datatype piece = One atom | PlusGreedy atom

definition is_digit :: "char \<Rightarrow> bool" where
  "is_digit c = (c \<in> set ''0123456789'')"

fun atom_ok :: "atom \<Rightarrow> char \<Rightarrow> bool" where
  "atom_ok DigitClass c = is_digit c"
| "atom_ok (Lit l) c = (c = l)"

text \<open>
  A backtracking matcher anchored at the head of the input, as the ECMAScript pattern
  semantics runs it: the greedy \<^verbatim>\<open>+\<close> first tries to take one more character, and gives
  it back only when the rest of the pattern fails after that. The result is the text
  matched.
\<close>

fun match_here :: "piece list \<Rightarrow> string \<Rightarrow> string option" where
  "match_here [] s = Some []"
| "match_here (One a # ps) [] = None"
| "match_here (One a # ps) (c # cs) =
     (if atom_ok a c then map_option ((#) c) (match_here ps cs) else None)"
| "match_here (PlusGreedy a # ps) [] = None"
| "match_here (PlusGreedy a # ps) (c # cs) =
     (if atom_ok a c then
        (case match_here (PlusGreedy a # ps) cs of
           Some m \<Rightarrow> Some (c # m)
         | None \<Rightarrow> map_option ((#) c) (match_here ps cs))
      else None)"

text \<open>
  \<^verbatim>\<open>String.prototype.match\<close> with a pattern without the \<^verbatim>\<open>g\<close> flag: the start positions
  are tried from left to right, the first that matches wins. The result array holds the
  whole match at index 0 and the capture groups after it; the one group of this pattern
  spans the whole pattern.
\<close>

record match_array =
  whole :: string
  group1 :: string

fun search_from :: "piece list \<Rightarrow> string \<Rightarrow> string option" where
  "search_from ps [] = match_here ps []"
| "search_from ps (c # cs) =
     (case match_here ps (c # cs) of Some m \<Rightarrow> Some m | None \<Rightarrow> search_from ps cs)"

definition version_pattern :: "piece list" where
  "version_pattern =
     [PlusGreedy DigitClass, One (Lit CHR ''.''), PlusGreedy DigitClass, One (Lit CHR ''.''),
      PlusGreedy DigitClass]"

definition match_version :: "string \<Rightarrow> match_array option" where
  "match_version s = map_option (\<lambda>m. \<lparr>whole = m, group1 = m\<rparr>) (search_from version_pattern s)"

subsection \<open>The four exported functions\<close>

text \<open>
  An \<^verbatim>\<open>async\<close> function settles with a rejection (\<open>Inl\<close>) or a value (\<open>Inr\<close>), in a new
  state; \<open>None\<close> when it never settles.
\<close>

type_synonym 'a settled = "((js_error + 'a) \<times> sys) option"

definition isCcrInstalled :: "shell \<Rightarrow> sys \<Rightarrow> bool settled" where
  "isCcrInstalled sh s =
     (case execAsync sh ''ccr version'' s of
        None \<Rightarrow> None
      | Some (Inr out, s1) \<Rightarrow> Some (Inr True, s1)
      | Some (Inl e, s1) \<Rightarrow>
          (case execAsync sh ''which ccr'' s1 of
             None \<Rightarrow> None
           | Some (Inr out, s2) \<Rightarrow> Some (Inr True, s2)
           | Some (Inl e', s2) \<Rightarrow> Some (Inr False, s2)))"

definition getCcrVersion :: "shell \<Rightarrow> sys \<Rightarrow> string option settled" where
  "getCcrVersion sh s =
     (case execAsync sh ''ccr version'' s of
        None \<Rightarrow> None
      | Some (Inr out, s1) \<Rightarrow>
          Some (Inr (case match_version (stdout out) of Some m \<Rightarrow> Some (group1 m) | None \<Rightarrow> None), s1)
      | Some (Inl e, s1) \<Rightarrow> Some (Inr None, s1))"

text \<open>
  The message table \<^verbatim>\<open>I18N\<close> of \<^verbatim>\<open>constants.ts\<close> is not among the sources; the functions
  take it as a parameter. These are the fields they read.
\<close>

record ccr_messages =
  ccrAlreadyInstalled :: string
  installingCcr :: string
  ccrInstallSuccess :: string
  ccrInstallFailed :: string
  failedToStartCcrService :: string
  errorStartingCcrService :: string

definition mentions_EEXIST :: "js_error \<Rightarrow> bool" where
  "mentions_EEXIST e = (case message e of None \<Rightarrow> False | Some m \<Rightarrow> includes_str m ''EEXIST'')"

definition installCcr :: "shell \<Rightarrow> (SupportedLang \<Rightarrow> ccr_messages) \<Rightarrow> SupportedLang \<Rightarrow> sys \<Rightarrow> unit settled" where
  "installCcr sh I18N scriptLang s =
     (let i18n = I18N scriptLang in
      case isCcrInstalled sh s of
        None \<Rightarrow> None
      | Some (Inl e, s1) \<Rightarrow> Some (Inl e, s1)
      | Some (Inr installed, s1) \<Rightarrow>
          if installed then Some (Inr (), emit (say Stdout Green CheckMark (ccrAlreadyInstalled i18n)) s1)
          else
            (case execAsync sh ''npm install -g claude-code-router --force''
                    (emit (say Stdout Cyan PackageBox (installingCcr i18n)) s1) of
               None \<Rightarrow> None
             | Some (Inr out, s2) \<Rightarrow>
                 Some (Inr (), emit (say Stdout Green CheckMark (ccrInstallSuccess i18n)) s2)
             | Some (Inl error, s2) \<Rightarrow>
                 if mentions_EEXIST error
                 then Some (Inr (), emit (say Stdout Yellow WarnSign (ccrAlreadyInstalled i18n)) s2)
                 else Some (Inl error, emit (say Stderr Red CrossMark (ccrInstallFailed i18n)) s2)))"


text \<open>Has every subprocess spawned so far exited by now?\<close>

definition has_exited :: "nat \<Rightarrow> spawn \<Rightarrow> bool" where
  "has_exited now p = (case exited p of None \<Rightarrow> False | Some t \<Rightarrow> t \<le> now)"

definition all_exited :: "sys \<Rightarrow> bool" where
  "all_exited s = list_all (has_exited (clock s)) (spawned s)"

text \<open>The commands a call has invoked: those spawned since the state it started in.\<close>

definition invoked :: "sys \<Rightarrow> sys \<Rightarrow> string list" where
  "invoked s s' = map cmd (drop (length (spawned s)) (spawned s'))"


subsection \<open>Concrete worlds\<close>

definition boot :: sys where
  "boot = \<lparr>clock = 0, spawned = [], console = []\<rparr>"

definition not_found :: js_error where
  "not_found = \<lparr>message = Some ''Command failed: command not found''\<rparr>"

definition no_ccr :: shell where
  "no_ccr c = Exits 5 (Inl not_found)"

definition ccr_banner :: exec_output where
  "ccr_banner = \<lparr>stdout = ''claude-code-router version: 1.0.26'', stderr = []\<rparr>"

definition has_ccr :: shell where
  "has_ccr c = (if c = ''ccr version'' then Exits 40 (Inr ccr_banner) else Exits 5 (Inl not_found))"

definition eexist :: js_error where
  "eexist = \<lparr>message = Some ''npm ERR! code EEXIST''\<rparr>"

definition npm_eexist :: shell where
  "npm_eexist c =
     (if c = ''npm install -g claude-code-router --force'' then Exits 900 (Inl eexist)
      else Exits 5 (Inl not_found))"


definition messages :: "SupportedLang \<Rightarrow> ccr_messages" where
  "messages l =
     \<lparr>ccrAlreadyInstalled = ''already installed'', installingCcr = ''installing'',
      ccrInstallSuccess = ''installed'', ccrInstallFailed = ''install failed'',
      failedToStartCcrService = ''failed to start'', errorStartingCcrService = ''error starting''\<rparr>"

text \<open>The state after \<^verbatim>\<open>ccr version\<close> has succeeded in the world \<open>has_ccr\<close>, started from \<open>boot\<close>.\<close>

definition after_version :: sys where
  "after_version =
     \<lparr>clock = 40, spawned = [\<lparr>cmd = ''ccr version'', started = 0, exited = Some 40\<rparr>], console = []\<rparr>"

text \<open>The state after both probes have failed, 5 ms each, started from \<open>boot\<close>.\<close>

definition after_probes :: sys where
  "after_probes =
     \<lparr>clock = 10,
      spawned = [\<lparr>cmd = ''ccr version'', started = 0, exited = Some 5\<rparr>,
                 \<lparr>cmd = ''which ccr'', started = 5, exited = Some 10\<rparr>],
      console = []\<rparr>"

subsection \<open>Which strings the pattern describes\<close>

text \<open>
  The language of a pattern, read declaratively: a string belongs to it when it can be
  split along the pieces, with no preference among the splits.
\<close>

fun in_lang :: "piece list \<Rightarrow> string \<Rightarrow> bool" where
  "in_lang [] s = (s = [])"
| "in_lang (One a # ps) [] = False"
| "in_lang (One a # ps) (c # cs) = (atom_ok a c \<and> in_lang ps cs)"
| "in_lang (PlusGreedy a # ps) [] = False"
| "in_lang (PlusGreedy a # ps) (c # cs) =
     (atom_ok a c \<and> (in_lang (PlusGreedy a # ps) cs \<or> in_lang ps cs))"

definition digits :: "string \<Rightarrow> bool" where
  "digits s = (s \<noteq> [] \<and> list_all is_digit s)"

text \<open>
  What the claim calls a version, in its own words: three non-empty runs of digits
  separated by dots. \<open>split_on\<close> cuts a string at every occurrence of the separator, as
  \<^verbatim>\<open>String.prototype.split\<close> does.
\<close>

fun split_on :: "char \<Rightarrow> string \<Rightarrow> string list" where
  "split_on d [] = [[]]"
| "split_on d (c # cs) =
     (if c = d then [] # split_on d cs
      else (case split_on d cs of [] \<Rightarrow> [[c]] | x # xs \<Rightarrow> (c # x) # xs))"

definition dotted_version :: "string \<Rightarrow> bool" where
  "dotted_version w =
     (case split_on CHR ''.'' w of
        [a, b, c] \<Rightarrow> digits a \<and> digits b \<and> digits c
      | _ \<Rightarrow> False)"

section \<open>The AI personality wizard (\<^verbatim>\<open>src/utils/ai-personality.ts\<close>)\<close>

subsection \<open>What the module imports\<close>

text \<open>
  The persisted record \<^verbatim>\<open>ZcfConfig\<close>, as far as this module reads and writes it. A field
  that is absent is \<open>None\<close>; the same type serves for the \<^verbatim>\<open>Partial<ZcfConfig>\<close> handed to
  \<^verbatim>\<open>updateZcfConfig\<close>.
\<close>

record ZcfConfig =
  preferredLang :: "SupportedLang option"
  aiPersonality :: "string option"

text \<open>
  The entries of the translation table that the module reads. Where the source guards an
  entry with \<^verbatim>\<open>|| 'fallback'\<close> the entry may be missing.
\<close>

record translation =
  existingPersonality :: "string option"
  currentPersonality :: "string option"
  modifyPersonality :: "string option"
  keepPersonality :: "string option"
  selectAiPersonality :: "string option"
  customPersonalityHint :: "string option"
  enterCustomPersonality :: "string option"
  directiveCannotBeEmpty :: "string option"
  personalityConfigured :: "string option"
  failedToApplyPersonality :: "string option"
  cancelled :: string

text \<open>
  The surroundings of the module, none of them among the sources: the constant
  \<^verbatim>\<open>CLAUDE_DIR\<close>, \<^verbatim>\<open>join\<close> of \<^verbatim>\<open>pathe\<close>, \<^verbatim>\<open>getTranslation\<close>, and the disk (for each path,
  the error a write to it throws, if any). The zh-CN literals of the personality table are
  not ASCII; \<open>zh\<close> stands for them, mapping each English literal to its zh-CN counterpart.
\<close>

record env =
  CLAUDE_DIR :: string
  join :: "string \<Rightarrow> string \<Rightarrow> string"
  getTranslation :: "SupportedLang \<Rightarrow> translation"
  write_error :: "string \<Rightarrow> js_error option"
  zh :: "string \<Rightarrow> string"

text \<open>JavaScript's \<^verbatim>\<open>a || b\<close> on a string that may be undefined: the empty string is falsy too.\<close>

definition orElse :: "string option \<Rightarrow> string \<Rightarrow> string" where
  "orElse a b = (case a of None \<Rightarrow> b | Some t \<Rightarrow> if t = [] then b else t)"

subsection \<open>Prompts\<close>

text \<open>
  A question put to the user through \<^verbatim>\<open>inquirer.prompt\<close>: its type, name, message and
  default. The choices of a list prompt are recorded as the module builds them, before
  \<^verbatim>\<open>addNumbersToChoices\<close> (not among the sources) numbers their labels, and without colours.
\<close>

record choice =
  label :: string
  val :: string
  short :: string

datatype prompt =
    Confirm string string bool
  | ListPrompt string string "choice list" int
  | InputPrompt string string

text \<open>
  The user's part: the answer to the confirmation, the value picked from the list, and what
  is typed at the input prompt, attempt after attempt.
\<close>

record answers =
  modify :: bool
  personality :: string
  typed :: "string list"

text \<open>
  What a \<^verbatim>\<open>validate\<close> callback returns here: \<^verbatim>\<open>true\<close>, or a string, or \<^verbatim>\<open>undefined\<close>.
  \<^verbatim>\<open>inquirer\<close> accepts an input only when the callback has returned exactly \<^verbatim>\<open>true\<close>, and asks
  again otherwise; the input prompt resolves with the first attempt accepted, and never
  resolves if none is.
\<close>

datatype js_value = JBoolean bool | JString string | JUndefined

definition accepted :: "js_value \<Rightarrow> bool" where
  "accepted v = (v = JBoolean True)"

definition inquirer_input :: "(string \<Rightarrow> js_value) \<Rightarrow> string list \<Rightarrow> string option" where
  "inquirer_input validate attempts = find (\<lambda>v. accepted (validate v)) attempts"

subsection \<open>State\<close>

text \<open>
  The state the module works on: the record \<^verbatim>\<open>readZcfConfig()\<close> returns (\<open>None\<close> for
  \<^verbatim>\<open>null\<close>), the files on disk, the console, and the prompts asked so far.
\<close>

record app =
  zcf :: "ZcfConfig option"
  files :: "string \<rightharpoonup> string"
  screen :: "line list"
  asked :: "prompt list"

definition print :: "line \<Rightarrow> app \<Rightarrow> app" where
  "print l st = st\<lparr>screen := screen st @ [l]\<rparr>"

definition ask :: "prompt \<Rightarrow> app \<Rightarrow> app" where
  "ask q st = st\<lparr>asked := asked st @ [q]\<rparr>"

text \<open>
  Modelled from the spec: \<^verbatim>\<open>writeFile\<close> of \<^verbatim>\<open>utils/fs-operations.ts\<close>, which is not among the
  sources. A write either throws (the spec's \<^verbatim>\<open>IOError\<close>: permissions, disk full) and
  leaves the disk as it was, or replaces the content of the file.
\<close>

definition writeFile :: "env \<Rightarrow> string \<Rightarrow> string \<Rightarrow> app \<Rightarrow> js_error + app" where
  "writeFile ev path content st =
     (case write_error ev path of
        Some e \<Rightarrow> Inl e
      | None \<Rightarrow> Inr (st\<lparr>files := (files st)(path \<mapsto> content)\<rparr>))"

text \<open>
  Modelled from the spec: \<^verbatim>\<open>updateZcfConfig\<close> of \<^verbatim>\<open>utils/zcf-config.ts\<close>, which is not among
  the sources. The record is overwritten whenever a setting changes and the last write wins:
  the fields given replace the stored ones, the others stay; a record is created if there
  was none.
\<close>

definition updateZcfConfig :: "ZcfConfig \<Rightarrow> app \<Rightarrow> app" where
  "updateZcfConfig updates st =
     (let old = (case zcf st of None \<Rightarrow> \<lparr>preferredLang = None, aiPersonality = None\<rparr> | Some c \<Rightarrow> c)
      in st\<lparr>zcf := Some
           \<lparr>preferredLang =
              (case preferredLang updates of None \<Rightarrow> preferredLang old | Some l \<Rightarrow> Some l),
            aiPersonality =
              (case aiPersonality updates of None \<Rightarrow> aiPersonality old | Some p \<Rightarrow> Some p)\<rparr>\<rparr>)"

subsection \<open>The personality table and the exported functions\<close>

record AiPersonality =
  ident :: string
  name :: "SupportedLang \<Rightarrow> string"
  directive :: "SupportedLang \<Rightarrow> string"

definition bilingual :: "env \<Rightarrow> string \<Rightarrow> SupportedLang \<Rightarrow> string" where
  "bilingual ev en l = (case l of En \<Rightarrow> en | ZhCN \<Rightarrow> zh ev en)"

definition AI_PERSONALITIES :: "env \<Rightarrow> AiPersonality list" where
  "AI_PERSONALITIES ev =
     [\<lparr>ident = ''professional'',
       name = bilingual ev ''Professional Assistant(Default)'',
       directive = bilingual ev
         ''You are an experienced [professional domain, e.g., Software Development Engineer / System Designer / Code Architect], specializing in building [core strengths, e.g., high-performance / maintainable / robust / domain-driven] solutions.''\<rparr>,
      \<lparr>ident = ''catgirl'',
       name = bilingual ev ''Catgirl Assistant'',
       directive = bilingual ev
         (''You are a cute catgirl programming assistant nya~ While maintaining professionalism, you occasionally use ''
          @ [CHR 0x22] @ ''nya'' @ [CHR 0x22] @ '', '' @ [CHR 0x22] @ ''meow'' @ [CHR 0x22]
          @ '' and similar expressions to make conversations more enjoyable nya~'')\<rparr>,
      \<lparr>ident = ''friendly'',
       name = bilingual ev ''Friendly Assistant'',
       directive = bilingual ev
         ''You are a friendly, patient, and explanatory programming assistant. You explain complex concepts in easy-to-understand ways and often provide encouragement.''\<rparr>,
      \<lparr>ident = ''mentor'',
       name = bilingual ev ''Mentor Mode'',
       directive = bilingual ev
         ''You are an experienced programming mentor. You not only provide solutions but also explain the principles behind them, guide users to think, and cultivate their ability to solve problems independently.''\<rparr>,
      \<lparr>ident = ''custom'',
       name = bilingual ev ''Custom'',
       directive = (\<lambda>l. [])\<rparr>]"

definition hasExistingPersonality :: "app \<Rightarrow> bool" where
  "hasExistingPersonality st =
     (case zcf st of
        None \<Rightarrow> False
      | Some config \<Rightarrow> (case aiPersonality config of None \<Rightarrow> False | Some p \<Rightarrow> p \<noteq> []))"

definition getExistingPersonality :: "app \<Rightarrow> string option" where
  "getExistingPersonality st =
     (case zcf st of
        None \<Rightarrow> None
      | Some config \<Rightarrow>
          (case aiPersonality config of None \<Rightarrow> None | Some p \<Rightarrow> if p = [] then None else Some p))"

definition getPersonalityInfo :: "env \<Rightarrow> string \<Rightarrow> AiPersonality option" where
  "getPersonalityInfo ev personalityId = find (\<lambda>p. ident p = personalityId) (AI_PERSONALITIES ev)"

text \<open>\<^verbatim>\<open>Array.prototype.findIndex\<close>: the index of the first element that qualifies, or -1.\<close>

fun findIndex :: "('a \<Rightarrow> bool) \<Rightarrow> 'a list \<Rightarrow> int" where
  "findIndex P [] = - 1"
| "findIndex P (x # xs) =
     (if P x then 0 else (let r = findIndex P xs in if r < 0 then - 1 else r + 1))"

definition personality_path :: "env \<Rightarrow> string" where
  "personality_path ev = join ev (CLAUDE_DIR ev) ''personality.md''"

definition failure_line :: "translation \<Rightarrow> js_error \<Rightarrow> line" where
  "failure_line errorI18n error =
     \<lparr>dest = Stderr, ink = Red, mark = NoGlyph,
      body = orElse (failedToApplyPersonality errorI18n) ''Failed to apply personality'',
      detail = Some error\<rparr>"

text \<open>\<^verbatim>\<open>readZcfConfig()?.preferredLang || 'en'\<close>\<close>

definition lang_on_record :: "app \<Rightarrow> SupportedLang" where
  "lang_on_record st =
     (case zcf st of
        None \<Rightarrow> En
      | Some config \<Rightarrow> (case preferredLang config of None \<Rightarrow> En | Some l \<Rightarrow> l))"

definition applyPersonalityDirective :: "env \<Rightarrow> string \<Rightarrow> app \<Rightarrow> app" where
  "applyPersonalityDirective ev d st =
     (let personalityFile = personality_path ev in
      case writeFile ev personalityFile d st of
        Inr st' \<Rightarrow> st'
      | Inl error \<Rightarrow>
          (let lang = lang_on_record st;
               errorI18n = getTranslation ev lang
           in print (failure_line errorI18n error) st))"

text \<open>The choices and the default of the list prompt (lines 107 to 119).\<close>

definition personality_choices :: "env \<Rightarrow> SupportedLang \<Rightarrow> choice list" where
  "personality_choices ev scriptLang =
     map (\<lambda>p.
        \<lparr>label =
           (if ident p \<noteq> ''custom''
            then name p scriptLang @ '' - '' @ take 50 (directive p scriptLang) @ ''...''
            else name p scriptLang @ '' - '' @
                 orElse (customPersonalityHint (getTranslation ev scriptLang))
                   ''Define your own personality''),
         val = ident p,
         short = name p scriptLang\<rparr>)
       (AI_PERSONALITIES ev)"

definition personality_default :: "env \<Rightarrow> string option \<Rightarrow> int" where
  "personality_default ev existing =
     (case existing of
        Some e \<Rightarrow> findIndex (\<lambda>p. ident p = e) (AI_PERSONALITIES ev)
      | None \<Rightarrow> 0)"

definition personality_prompt :: "env \<Rightarrow> SupportedLang \<Rightarrow> string option \<Rightarrow> prompt" where
  "personality_prompt ev scriptLang existing =
     ListPrompt ''personality''
       (orElse (selectAiPersonality (getTranslation ev scriptLang)) ''Select AI personality'')
       (personality_choices ev scriptLang)
       (personality_default ev existing)"

text \<open>The \<^verbatim>\<open>validate\<close> callback of the input prompt (line 134).\<close>

definition validate_directive :: "translation \<Rightarrow> string \<Rightarrow> js_value" where
  "validate_directive i18n v =
     (if v \<noteq> [] then JBoolean True
      else (case directiveCannotBeEmpty i18n of None \<Rightarrow> JUndefined | Some m \<Rightarrow> JString m))"

definition success_line :: "translation \<Rightarrow> line" where
  "success_line i18n =
     say Stdout Green CheckMark (orElse (personalityConfigured i18n) ''AI personality configured'')"

text \<open>Lines 150 to 156: write the directive, save the choice, report.\<close>

definition apply_and_save :: "env \<Rightarrow> SupportedLang \<Rightarrow> string \<Rightarrow> string \<Rightarrow> app \<Rightarrow> app" where
  "apply_and_save ev scriptLang p d st =
     print (success_line (getTranslation ev scriptLang))
       (updateZcfConfig \<lparr>preferredLang = None, aiPersonality = Some p\<rparr>
          (applyPersonalityDirective ev d st))"

text \<open>
  Lines 106 to 156: the selection. The result is \<open>None\<close> when the input prompt never
  resolves.
\<close>

definition select_personality ::
  "env \<Rightarrow> SupportedLang \<Rightarrow> string option \<Rightarrow> answers \<Rightarrow> app \<Rightarrow> app option" where
  "select_personality ev scriptLang existing ans st =
     (let i18n = getTranslation ev scriptLang;
          st1 = ask (personality_prompt ev scriptLang existing) st
      in if personality ans = [] then Some (print (say Stdout Yellow NoGlyph (cancelled i18n)) st1)
         else if personality ans = ''custom'' then
           (case inquirer_input (validate_directive i18n) (typed ans) of
              None \<Rightarrow> None
            | Some customDirective \<Rightarrow>
                (let st2 = ask (InputPrompt ''customDirective''
                                  (orElse (enterCustomPersonality i18n)
                                     ''Enter custom personality directive'')) st1
                 in if customDirective = []
                    then Some (print (say Stdout Yellow NoGlyph (cancelled i18n)) st2)
                    else Some (apply_and_save ev scriptLang (personality ans) customDirective st2)))
         else
           (let chosen =
                  (case find (\<lambda>p. ident p = personality ans) (AI_PERSONALITIES ev) of
                     Some selected \<Rightarrow> directive selected scriptLang
                   | None \<Rightarrow> [])
            in Some (apply_and_save ev scriptLang (personality ans) chosen st1)))"

text \<open>
  \<^verbatim>\<open>configureAiPersonality\<close>: lines 79 to 104 show the personality on record and offer to keep
  it; the selection follows. (The first console line starts with a line feed in the source;
  the model leaves it out.)
\<close>

definition configureAiPersonality ::
  "env \<Rightarrow> SupportedLang \<Rightarrow> bool \<Rightarrow> answers \<Rightarrow> app \<Rightarrow> app option" where
  "configureAiPersonality ev scriptLang showExisting ans st =
     (let i18n = getTranslation ev scriptLang;
          existing = getExistingPersonality st
      in case (if showExisting then existing else None) of
           None \<Rightarrow> select_personality ev scriptLang existing ans st
         | Some e \<Rightarrow>
             (case getPersonalityInfo ev e of
                None \<Rightarrow> select_personality ev scriptLang existing ans st
              | Some personalityInfo \<Rightarrow>
                  (let st1 = print (say Stdout Blue InfoSign
                                (orElse (existingPersonality i18n)
                                   ''Existing AI personality configuration'')) st;
                       st2 = print (say Stdout Gray NoGlyph
                                (''  '' @ orElse (currentPersonality i18n) ''Current personality''
                                 @ '': '' @ name personalityInfo scriptLang)) st1;
                       st3 = ask (Confirm ''modify''
                                (orElse (modifyPersonality i18n) ''Modify AI personality?'') False) st2
                   in if \<not> modify ans
                      then Some (print (say Stdout Green CheckMark
                                   (orElse (keepPersonality i18n) ''Keeping existing personality'')) st3)
                      else select_personality ev scriptLang existing ans st3)))"

subsection \<open>A concrete setting\<close>

definition english :: translation where
  "english =
     \<lparr>existingPersonality = None, currentPersonality = None, modifyPersonality = None,
      keepPersonality = None, selectAiPersonality = None, customPersonalityHint = None,
      enterCustomPersonality = None, directiveCannotBeEmpty = Some ''Directive cannot be empty'',
      personalityConfigured = None, failedToApplyPersonality = None, cancelled = ''Cancelled''\<rparr>"

definition eacces :: js_error where
  "eacces = \<lparr>message = Some ''EACCES: permission denied''\<rparr>"

text \<open>A home directory that cannot be written to, and one that can.\<close>

definition locked_home :: env where
  "locked_home =
     \<lparr>CLAUDE_DIR = ''/home/u/.claude'', join = (\<lambda>a b. a @ ''/'' @ b),
      getTranslation = (\<lambda>l. english), write_error = (\<lambda>p. Some eacces), zh = (\<lambda>t. t)\<rparr>"

definition open_home :: env where
  "open_home = locked_home\<lparr>write_error := (\<lambda>p. None)\<rparr>"

definition fresh :: app where
  "fresh = \<lparr>zcf = None, files = Map.empty, screen = [], asked = []\<rparr>"

definition picks_mentor :: answers where
  "picks_mentor = \<lparr>modify = False, personality = ''mentor'', typed = []\<rparr>"

definition writes_own :: answers where
  "writes_own = \<lparr>modify = True, personality = ''custom'', typed = [[], ''Be terse.'']\<rparr>"

section \<open>The command line (\<^verbatim>\<open>src/cli-setup.ts\<close>)\<close>

text \<open>
  The options object that \<^verbatim>\<open>init\<close> takes has the fields of \<^verbatim>\<open>CliOptions\<close> but \<^verbatim>\<open>init\<close>; an
  option that was not given is \<open>None\<close>. Values come from the command line, so the language
  fields hold whatever string was typed. (\<open>aiPersonality'\<close> is the field \<^verbatim>\<open>aiPersonality\<close>.)
\<close>

record InitOptions =
  lang :: "string option"
  configLang :: "string option"
  aiOutputLang :: "string option"
  force :: "bool option"
  skipPrompt :: "bool option"
  installClaude :: "string option"
  configAction :: "string option"
  apiType :: "string option"
  apiKey :: "string option"
  authToken :: "string option"
  apiUrl :: "string option"
  mcpServices :: "string option"
  mcpApiKeys :: "string option"
  workflows :: "string option"
  aiPersonality' :: "string option"

record CliOptions = InitOptions +
  init :: "bool option"

text \<open>
  The commands live in modules that are not among the sources; a handler is modelled by the
  calls it makes, in order.
\<close>

datatype call =
    CallInit InitOptions
  | CallShowMainMenu
  | CallUpdate "string option"
  | CallCcr "string option"
  | CallExecuteCcusage "string list"
  | CallCheckUpdates "string option"

text \<open>\<^verbatim>\<open>a || b\<close> on strings that may be undefined.\<close>

definition or_undefined :: "string option \<Rightarrow> string option \<Rightarrow> string option" where
  "or_undefined a b = (case a of None \<Rightarrow> b | Some t \<Rightarrow> if t = [] then b else Some t)"

definition handleDefaultCommand :: "string option \<Rightarrow> CliOptions \<Rightarrow> call list" where
  "handleDefaultCommand lang_arg options =
     (if init options = Some True
      then [CallInit
              \<lparr>lang = or_undefined lang_arg (lang options),
               configLang = configLang options,
               aiOutputLang = None,
               force = force options,
               skipPrompt = None, installClaude = None, configAction = None, apiType = None,
               apiKey = None, authToken = None, apiUrl = None, mcpServices = None,
               mcpApiKeys = None, workflows = None, aiPersonality' = None\<rparr>]
      else [CallShowMainMenu])"

definition handleInitCommand :: "CliOptions \<Rightarrow> call list" where
  "handleInitCommand options =
     [CallInit
        \<lparr>lang = lang options,
         configLang = configLang options,
         aiOutputLang = aiOutputLang options,
         force = force options,
         skipPrompt = skipPrompt options,
         installClaude = installClaude options,
         configAction = configAction options,
         apiType = apiType options,
         apiKey = apiKey options,
         authToken = authToken options,
         apiUrl = apiUrl options,
         mcpServices = mcpServices options,
         mcpApiKeys = mcpApiKeys options,
         workflows = workflows options,
         aiPersonality' = aiPersonality' options\<rparr>]"

definition handleUpdateCommand :: "CliOptions \<Rightarrow> call list" where
  "handleUpdateCommand options = [CallUpdate (configLang options)]"

text \<open>
  \<^verbatim>\<open>setupCommands\<close> registers six commands with \<^verbatim>\<open>cac\<close>. The library is not among the
  sources; its routing is modelled as far as the registrations determine it: the first
  positional word selects the command whose name or alias it is, and the command
  registered as \<^verbatim>\<open>[lang]\<close> is the default, which takes an optional positional word and runs
  when no other command is selected.
\<close>

definition setupCommands :: "string list \<Rightarrow> CliOptions \<Rightarrow> call list" where
  "setupCommands positional options =
     (case positional of
        [] \<Rightarrow> handleDefaultCommand None options
      | w # rest \<Rightarrow>
          if w = ''init'' \<or> w = ''i'' then handleInitCommand options
          else if w = ''update'' \<or> w = ''u'' then handleUpdateCommand options
          else if w = ''ccr'' then [CallCcr (lang options)]
          else if w = ''ccu'' then [CallExecuteCcusage rest]
          else if w = ''check-updates'' \<or> w = ''check'' then [CallCheckUpdates (lang options)]
          else handleDefaultCommand (Some w) options)"

text \<open>The options of an invocation without any flag, and what \<^verbatim>\<open>init\<close> gets from it.\<close>

definition no_init_options :: InitOptions where
  "no_init_options =
     \<lparr>lang = None, configLang = None, aiOutputLang = None, force = None, skipPrompt = None,
      installClaude = None, configAction = None, apiType = None, apiKey = None,
      authToken = None, apiUrl = None, mcpServices = None, mcpApiKeys = None,
      workflows = None, aiPersonality' = None\<rparr>"

definition no_flags :: CliOptions where
  "no_flags = InitOptions.extend no_init_options (CliOptions.fields None)"

definition is_init_call :: "call \<Rightarrow> bool" where
  "is_init_call c = (case c of CallInit opts \<Rightarrow> True | _ \<Rightarrow> False)"

section \<open>The configuration merge (specification, section 4.1)\<close>

text \<open>
  The engine \<^verbatim>\<open>apply(targetDir, templateFiles, strategy, force)\<close> is not among the sources.
  What follows is its JSON merge as the specification words it.
\<close>

text \<open>
  A JSON value. An object keeps its members in order; a lookup finds the first member of
  that name. (Numbers are integers here; no claim turns on them.)
\<close>

datatype json =
    JsonNull
  | JsonBool bool
  | JsonNumber int
  | JsonString string
  | JsonArray "json list"
  | JsonObject "(string \<times> json) list"









section \<open>Properties of the external tool probe\<close>

lemma execAsync_cases:
  "execAsync sh c s =
     (case sh c of
        Hangs \<Rightarrow> None
      | Exits d r \<Rightarrow>
          Some (r, \<lparr>clock = clock s + d,
                     spawned = spawned s @ [\<lparr>cmd = c, started = clock s, exited = Some (clock s + d)\<rparr>],
                     console = console s\<rparr>))"
  by (simp add: execAsync_def launch_def exits_at_def split: proc.splits)




text \<open>
  Claim C2, as stated: every call of \<^verbatim>\<open>isCcrInstalled\<close> and of \<^verbatim>\<open>getCcrVersion\<close> attempts
  exactly one invocation, and none after the first has failed. It fails for
  \<^verbatim>\<open>isCcrInstalled\<close>: when \<^verbatim>\<open>ccr version\<close> fails, the catch block goes on to run
  \<^verbatim>\<open>which ccr\<close>.
\<close>

theorem single_invocation_counterexample:
  "map_option (invoked boot \<circ> snd) (isCcrInstalled no_ccr boot) =
     Some [''ccr version'', ''which ccr'']"
  by (simp add: isCcrInstalled_def execAsync_cases invoked_def no_ccr_def boot_def)

text \<open>
  Claim C2, amended. A call of \<^verbatim>\<open>getCcrVersion\<close> that returns has invoked \<^verbatim>\<open>ccr version\<close>
  once and nothing else. A call of \<^verbatim>\<open>isCcrInstalled\<close> that returns has invoked
  \<^verbatim>\<open>ccr version\<close> once and nothing else when that succeeded, and \<^verbatim>\<open>ccr version\<close> and then
  \<^verbatim>\<open>which ccr\<close>, once each, when it failed. No command is ever invoked a second time.
\<close>

theorem probe_invocations:
  "map_option (invoked s \<circ> snd) (getCcrVersion sh s) =
     (case sh ''ccr version'' of Hangs \<Rightarrow> None | Exits d r \<Rightarrow> Some [''ccr version'']) \<and>
   map_option (invoked s \<circ> snd) (isCcrInstalled sh s) =
     (case sh ''ccr version'' of
        Hangs \<Rightarrow> None
      | Exits d (Inr out) \<Rightarrow> Some [''ccr version'']
      | Exits d (Inl e) \<Rightarrow>
          (case sh ''which ccr'' of
             Hangs \<Rightarrow> None
           | Exits d' r \<Rightarrow> Some [''ccr version'', ''which ccr'']))"
  by (auto simp add: getCcrVersion_def isCcrInstalled_def execAsync_cases invoked_def
      split: proc.splits sum.splits)



lemma all_exited_emit [simp]: "all_exited (emit l s) = all_exited s"
  by (simp add: all_exited_def emit_def)






lemma has_ccr_probe: "isCcrInstalled has_ccr boot = Some (Inr True, after_version)"
  by (simp add: isCcrInstalled_def execAsync_cases has_ccr_def ccr_banner_def boot_def
      after_version_def)

lemma failed_probes:
  "isCcrInstalled no_ccr boot = Some (Inr False, after_probes)"
  "isCcrInstalled npm_eexist boot = Some (Inr False, after_probes)"
  by (simp_all add: isCcrInstalled_def execAsync_cases no_ccr_def npm_eexist_def boot_def
      after_probes_def)


lemma mentions_EEXIST_examples: "mentions_EEXIST eexist" "\<not> mentions_EEXIST not_found"
  by (simp_all add: mentions_EEXIST_def eexist_def not_found_def)



text \<open>
  Claim C9. \<^verbatim>\<open>installCcr\<close> returns without any further invocation when the probe says the
  tool is installed; when the probe says it is not and the package manager fails, the call
  returns normally if the error message contains \<^verbatim>\<open>EEXIST\<close> and rethrows the error otherwise.
\<close>

theorem installCcr_outcomes:
  "(isCcrInstalled sh s = Some (Inr True, s1) \<longrightarrow>
      (\<exists>s'. installCcr sh I18N l s = Some (Inr (), s') \<and> invoked s1 s' = [])) \<and>
   (isCcrInstalled sh s = Some (Inr False, s1) \<and>
    sh ''npm install -g claude-code-router --force'' = Exits d (Inl e) \<and> mentions_EEXIST e \<longrightarrow>
      (\<exists>s'. installCcr sh I18N l s = Some (Inr (), s'))) \<and>
   (isCcrInstalled sh s = Some (Inr False, s1) \<and>
    sh ''npm install -g claude-code-router --force'' = Exits d (Inl e) \<and> \<not> mentions_EEXIST e \<longrightarrow>
      (\<exists>s'. installCcr sh I18N l s = Some (Inl e, s')))"
  by (auto simp: installCcr_def Let_def execAsync_cases emit_def invoked_def)

theorem installCcr_outcomes_witness:
  "isCcrInstalled has_ccr boot = Some (Inr True, after_version) \<and>
   (\<exists>s'. installCcr has_ccr messages En boot = Some (Inr (), s') \<and> invoked after_version s' = []) \<and>
   isCcrInstalled npm_eexist boot = Some (Inr False, after_probes) \<and>
   npm_eexist ''npm install -g claude-code-router --force'' = Exits 900 (Inl eexist) \<and>
   mentions_EEXIST eexist \<and>
   (\<exists>s'. installCcr npm_eexist messages En boot = Some (Inr (), s')) \<and>
   isCcrInstalled no_ccr boot = Some (Inr False, after_probes) \<and>
   no_ccr ''npm install -g claude-code-router --force'' = Exits 5 (Inl not_found) \<and>
   \<not> mentions_EEXIST not_found \<and>
   (\<exists>s'. installCcr no_ccr messages En boot = Some (Inl not_found, s'))"
proof -
  have a: "npm_eexist ''npm install -g claude-code-router --force'' = Exits 900 (Inl eexist)"
    by (simp add: npm_eexist_def)
  have b: "no_ccr ''npm install -g claude-code-router --force'' = Exits 5 (Inl not_found)"
    by (simp add: no_ccr_def)
  show ?thesis
    using installCcr_outcomes [of has_ccr boot after_version messages En 0 not_found]
      installCcr_outcomes [of npm_eexist boot after_probes messages En 900 eexist]
      installCcr_outcomes [of no_ccr boot after_probes messages En 5 not_found]
      has_ccr_probe failed_probes mentions_EEXIST_examples a b
    by simp
qed

subsection \<open>The version pattern\<close>

lemma match_here_sound:
  "match_here ps s = Some m \<Longrightarrow> (\<exists>post. s = m @ post) \<and> in_lang ps m"
proof (induction ps s arbitrary: m rule: match_here.induct)
  case (1 s)
  then show ?case by simp
next
  case (2 a ps)
  then show ?case by simp
next
  case (3 a ps c cs)
  then show ?case by (auto split: if_splits)
next
  case (4 a ps)
  then show ?case by simp
next
  case (5 a ps c cs)
  then show ?case by (auto split: if_splits option.splits)
qed

lemma match_here_complete:
  "in_lang ps w \<Longrightarrow> match_here ps (w @ post) \<noteq> None"
proof (induction ps w rule: in_lang.induct)
  case (5 a ps c cs)
  then show ?case by (auto split: option.splits)
qed auto

lemma search_from_Some:
  "search_from ps s = Some m \<Longrightarrow>
     \<exists>pre post. s = pre @ m @ post \<and> match_here ps (m @ post) = Some m \<and>
       (\<forall>pre' w post'. s = pre' @ w @ post' \<and> in_lang ps w \<longrightarrow> length pre \<le> length pre')"
proof (induction s)
  case Nil
  then have h: "match_here ps [] = Some m" by simp
  from match_here_sound [OF this] have "m = []" by auto
  with h have "[] = [] @ m @ [] \<and> match_here ps (m @ []) = Some m \<and>
       (\<forall>pre' w post'. [] = pre' @ w @ post' \<and> in_lang ps w \<longrightarrow> length ([]::string) \<le> length pre')"
    by simp
  then show ?case by blast
next
  case (Cons c cs)
  show ?case
  proof (cases "match_here ps (c # cs)")
    case (Some m')
    with Cons.prems have m: "m' = m" by simp
    with Some obtain post where "c # cs = m @ post"
      using match_here_sound by blast
    then have "c # cs = [] @ m @ post \<and> match_here ps (m @ post) = Some m \<and>
       (\<forall>pre' w post'. c # cs = pre' @ w @ post' \<and> in_lang ps w \<longrightarrow> length ([]::string) \<le> length pre')"
      using Some m by simp
    then show ?thesis by blast
  next
    case None
    with Cons.prems have "search_from ps cs = Some m" by simp
    from Cons.IH [OF this] obtain pre post where
      p: "cs = pre @ m @ post" "match_here ps (m @ post) = Some m"
         "\<forall>pre' w post'. cs = pre' @ w @ post' \<and> in_lang ps w \<longrightarrow> length pre \<le> length pre'"
      by blast
    have "length (c # pre) \<le> length pre'" if "c # cs = pre' @ w @ post'" "in_lang ps w" for pre' w post'
    proof (cases pre')
      case Nil
      with that None match_here_complete [of ps w post'] show ?thesis by simp
    next
      case (Cons x xs)
      with that have "cs = xs @ w @ post'" by simp
      with p(3) that(2) have "length pre \<le> length xs" by blast
      with Cons show ?thesis by simp
    qed
    then have "c # cs = (c # pre) @ m @ post \<and> match_here ps (m @ post) = Some m \<and>
       (\<forall>pre' w post'. c # cs = pre' @ w @ post' \<and> in_lang ps w \<longrightarrow> length (c # pre) \<le> length pre')"
      using p by simp
    then show ?thesis by blast
  qed
qed

lemma search_from_None:
  "search_from ps s = None \<Longrightarrow> s = pre @ w @ post \<Longrightarrow> \<not> in_lang ps w"
proof (induction s arbitrary: pre)
  case Nil
  then show ?case using match_here_complete [of ps w "[]"] by auto
next
  case (Cons c cs)
  from Cons.prems(1) have n: "match_here ps (c # cs) = None" and r: "search_from ps cs = None"
    by (auto split: option.splits)
  show ?case
  proof (cases pre)
    case Nil
    with Cons.prems(2) n match_here_complete [of ps w post] show ?thesis by auto
  next
    case (Cons x xs)
    with Cons.prems(2) have "cs = xs @ w @ post" by simp
    with Cons.IH r show ?thesis by blast
  qed
qed


lemma plus_digits_last:
  "match_here [PlusGreedy DigitClass] t =
     (if takeWhile is_digit t = [] then None else Some (takeWhile is_digit t))"
  by (induction t) auto

lemma takeWhile_Nil_dropWhile: "takeWhile P xs = [] \<Longrightarrow> dropWhile P xs = xs"
  using takeWhile_dropWhile_id [of P xs] by simp

lemma plus_digits_then_lit:
  assumes "\<not> is_digit l"
  shows "match_here (PlusGreedy DigitClass # One (Lit l) # qs) t =
     (if takeWhile is_digit t = [] then None
      else map_option ((@) (takeWhile is_digit t))
             (match_here (One (Lit l) # qs) (dropWhile is_digit t)))"
proof (induction t)
  case Nil
  then show ?case by simp
next
  case (Cons x xs)
  show ?case
  proof (cases "is_digit x")
    case False
    then show ?thesis by simp
  next
    case True
    show ?thesis
    proof (cases "takeWhile is_digit xs = []")
      case e: True
      then have "match_here (PlusGreedy DigitClass # One (Lit l) # qs) xs = None"
        using Cons.IH by simp
      moreover have "dropWhile is_digit xs = xs"
        using e by (rule takeWhile_Nil_dropWhile)
      moreover have "(@) [x] = (#) x" by (simp add: fun_eq_iff)
      ultimately show ?thesis using True e by simp
    next
      case ne: False
      then obtain y ys where xs: "xs = y # ys" and y: "is_digit y"
        by (cases xs) (auto split: if_splits)
      have lit: "match_here (One (Lit l) # qs) xs = None"
        using xs y assms by auto
      show ?thesis
      proof (cases "match_here (One (Lit l) # qs) (dropWhile is_digit xs)")
        case None
        then show ?thesis using True ne Cons.IH lit by simp
      next
        case (Some r)
        then show ?thesis using True ne Cons.IH by simp
      qed
    qed
  qed
qed

lemma dot_not_digit: "\<not> is_digit CHR ''.''"
  by (simp add: is_digit_def)

lemma in_lang_plus_digits:
  "in_lang (PlusGreedy DigitClass # ps) w = (\<exists>a r. w = a @ r \<and> digits a \<and> in_lang ps r)"
proof
  show "in_lang (PlusGreedy DigitClass # ps) w \<Longrightarrow> \<exists>a r. w = a @ r \<and> digits a \<and> in_lang ps r"
  proof (induction w)
    case Nil
    then show ?case by simp
  next
    case (Cons c cs)
    then have c: "is_digit c" by simp
    from Cons.prems consider "in_lang (PlusGreedy DigitClass # ps) cs" | "in_lang ps cs" by auto
    then show ?case
    proof cases
      case 1
      from Cons.IH [OF this] obtain a r where "cs = a @ r" "digits a" "in_lang ps r" by blast
      then have "c # cs = (c # a) @ r \<and> digits (c # a) \<and> in_lang ps r"
        using c by (simp add: digits_def)
      then show ?thesis by blast
    next
      case 2
      then have "c # cs = [c] @ cs \<and> digits [c] \<and> in_lang ps cs"
        using c by (simp add: digits_def)
      then show ?thesis by blast
    qed
  qed
next
  assume "\<exists>a r. w = a @ r \<and> digits a \<and> in_lang ps r"
  then obtain a r where w: "w = a @ r" and a: "digits a" and r: "in_lang ps r" by blast
  from a r have "in_lang (PlusGreedy DigitClass # ps) (a @ r)"
  proof (induction a)
    case Nil
    then show ?case by (simp add: digits_def)
  next
    case (Cons c cs)
    then show ?case by (cases cs) (auto simp: digits_def)
  qed
  then show "in_lang (PlusGreedy DigitClass # ps) w" using w by simp
qed

lemma in_lang_lit: "in_lang (One (Lit l) # ps) w = (\<exists>r. w = l # r \<and> in_lang ps r)"
  by (cases w) auto

lemma in_lang_version:
  "in_lang version_pattern w =
     (\<exists>a b c. w = a @ ''.'' @ b @ ''.'' @ c \<and> digits a \<and> digits b \<and> digits c)"
proof
  assume "in_lang version_pattern w"
  then obtain a r1 where 1: "w = a @ r1" "digits a"
      "in_lang [One (Lit CHR ''.''), PlusGreedy DigitClass, One (Lit CHR ''.''), PlusGreedy DigitClass] r1"
    unfolding version_pattern_def in_lang_plus_digits by blast
  from 1(3) obtain r2 where 2: "r1 = CHR ''.'' # r2"
      "in_lang [PlusGreedy DigitClass, One (Lit CHR ''.''), PlusGreedy DigitClass] r2"
    unfolding in_lang_lit by blast
  from 2(2) obtain b r3 where 3: "r2 = b @ r3" "digits b"
      "in_lang [One (Lit CHR ''.''), PlusGreedy DigitClass] r3"
    unfolding in_lang_plus_digits by blast
  from 3(3) obtain r4 where 4: "r3 = CHR ''.'' # r4" "in_lang [PlusGreedy DigitClass] r4"
    unfolding in_lang_lit by blast
  from 4(2) have 5: "digits r4"
    unfolding in_lang_plus_digits by auto
  have "w = a @ ''.'' @ b @ ''.'' @ r4"
    using 1(1) 2(1) 3(1) 4(1) by simp
  then show "\<exists>a b c. w = a @ ''.'' @ b @ ''.'' @ c \<and> digits a \<and> digits b \<and> digits c"
    using 1(2) 3(2) 5 by blast
next
  assume "\<exists>a b c. w = a @ ''.'' @ b @ ''.'' @ c \<and> digits a \<and> digits b \<and> digits c"
  then obtain a b c where w: "w = a @ ''.'' @ b @ ''.'' @ c"
    and d: "digits a" "digits b" "digits c" by blast
  have "in_lang [PlusGreedy DigitClass] c"
    unfolding in_lang_plus_digits using d(3) by simp
  then have "in_lang [One (Lit CHR ''.''), PlusGreedy DigitClass] (CHR ''.'' # c)"
    by simp
  then have "in_lang [PlusGreedy DigitClass, One (Lit CHR ''.''), PlusGreedy DigitClass]
               (b @ CHR ''.'' # c)"
    unfolding in_lang_plus_digits [of "[One (Lit CHR ''.''), PlusGreedy DigitClass]"]
    using d(2) by blast
  then have "in_lang [One (Lit CHR ''.''), PlusGreedy DigitClass, One (Lit CHR ''.''),
               PlusGreedy DigitClass] (CHR ''.'' # b @ CHR ''.'' # c)"
    by simp
  then have "in_lang version_pattern (a @ CHR ''.'' # b @ CHR ''.'' # c)"
    unfolding version_pattern_def
      in_lang_plus_digits [of "[One (Lit CHR ''.''), PlusGreedy DigitClass, One (Lit CHR ''.''),
               PlusGreedy DigitClass]"]
    using d(1) by blast
  then show "in_lang version_pattern w" by (simp add: w)
qed

lemma takeWhile_digits: "digits a \<Longrightarrow> \<not> is_digit x \<Longrightarrow> takeWhile is_digit (a @ x # r) = a"
  by (simp add: digits_def list_all_iff takeWhile_append2)

lemma dropWhile_digits: "digits a \<Longrightarrow> \<not> is_digit x \<Longrightarrow> dropWhile is_digit (a @ x # r) = x # r"
  by (simp add: digits_def list_all_iff dropWhile_append2)

lemma match_here_version:
  assumes "in_lang version_pattern w"
  shows "match_here version_pattern (w @ post) = Some (w @ takeWhile is_digit post)"
proof -
  from assms obtain a b c where w: "w = a @ ''.'' @ b @ ''.'' @ c"
    and d: "digits a" "digits b" "digits c"
    unfolding in_lang_version by blast
  have c: "takeWhile is_digit (c @ post) = c @ takeWhile is_digit post"
    using d(3) by (simp add: digits_def list_all_iff takeWhile_append2)
  have c0: "c @ takeWhile is_digit post \<noteq> []"
    using d(3) by (simp add: digits_def)
  have 3: "match_here [PlusGreedy DigitClass] (c @ post) = Some (c @ takeWhile is_digit post)"
    using c c0 by (simp add: plus_digits_last)
  have 2: "match_here [PlusGreedy DigitClass, One (Lit CHR ''.''), PlusGreedy DigitClass]
             (b @ CHR ''.'' # c @ post) = Some (b @ CHR ''.'' # c @ takeWhile is_digit post)"
    using d(2) 3 dot_not_digit
    by (simp add: plus_digits_then_lit takeWhile_digits dropWhile_digits digits_def)
  have 1: "match_here version_pattern (a @ CHR ''.'' # b @ CHR ''.'' # c @ post) =
             Some (a @ CHR ''.'' # b @ CHR ''.'' # c @ takeWhile is_digit post)"
    unfolding version_pattern_def
    using d(1) 2 dot_not_digit
    by (simp add: plus_digits_then_lit takeWhile_digits dropWhile_digits digits_def)
  then show ?thesis by (simp add: w)
qed

lemma split_on_whole: "d \<notin> set a \<Longrightarrow> split_on d a = [a]"
  by (induction a) auto

lemma split_on_append: "d \<notin> set a \<Longrightarrow> split_on d (a @ d # r) = a # split_on d r"
  by (induction a) auto

lemma split_on_nonempty [simp]: "split_on d s \<noteq> []"
  by (cases s) (auto split: list.splits)

lemma split_on_single: "split_on d s = [x] \<Longrightarrow> s = x"
proof (induction s arbitrary: x)
  case Nil
  then show ?case by simp
next
  case (Cons c cs)
  from Cons.prems have n: "c \<noteq> d"
    by (auto split: if_splits)
  obtain y ys where y: "split_on d cs = y # ys"
    by (cases "split_on d cs") simp_all
  with Cons.prems n have "x = c # y" "ys = []" by simp_all
  with y Cons.IH [of y] show ?case by simp
qed

lemma split_on_more:
  "split_on d s = x # y # ys \<Longrightarrow> \<exists>r. s = x @ d # r \<and> split_on d r = y # ys"
proof (induction s arbitrary: x)
  case Nil
  then show ?case by simp
next
  case (Cons c cs)
  show ?case
  proof (cases "c = d")
    case True
    with Cons.prems have "x = []" "split_on d cs = y # ys" by simp_all
    with True show ?thesis by simp
  next
    case False
    obtain z zs where z: "split_on d cs = z # zs"
      by (cases "split_on d cs") simp_all
    with Cons.prems False have x: "x = c # z" "zs = y # ys" by simp_all
    with z Cons.IH [of z] obtain r where "cs = z @ d # r" "split_on d r = y # ys" by blast
    with x show ?thesis by simp
  qed
qed

lemma digits_no_dot: "digits a \<Longrightarrow> CHR ''.'' \<notin> set a"
  using dot_not_digit by (auto simp: digits_def list_all_iff)

lemma dotted_version_shape:
  "dotted_version w =
     (\<exists>a b c. w = a @ ''.'' @ b @ ''.'' @ c \<and> digits a \<and> digits b \<and> digits c)"
proof
  assume "dotted_version w"
  then obtain a b c where s: "split_on CHR ''.'' w = [a, b, c]"
    and d: "digits a" "digits b" "digits c"
  proof -
    assume dv: "dotted_version w"
    obtain x xs where 1: "split_on CHR ''.'' w = x # xs"
      by (cases "split_on CHR ''.'' w") simp_all
    with dv obtain y ys where 2: "xs = y # ys"
      by (cases xs) (simp_all add: dotted_version_def)
    with dv 1 obtain z zs where 3: "ys = z # zs"
      by (cases ys) (simp_all add: dotted_version_def)
    with dv 1 2 have 4: "zs = []"
      by (cases zs) (simp_all add: dotted_version_def)
    with dv 1 2 3 have "digits x" "digits y" "digits z"
      by (simp_all add: dotted_version_def)
    with 1 2 3 4 that show ?thesis by simp
  qed
  from split_on_more [OF s] obtain r where r: "w = a @ CHR ''.'' # r" "split_on CHR ''.'' r = [b, c]"
    by blast
  from split_on_more [OF r(2)] obtain r' where r': "r = b @ CHR ''.'' # r'" "split_on CHR ''.'' r' = [c]"
    by blast
  from split_on_single [OF r'(2)] r(1) r'(1) have "w = a @ ''.'' @ b @ ''.'' @ c" by simp
  with d show "\<exists>a b c. w = a @ ''.'' @ b @ ''.'' @ c \<and> digits a \<and> digits b \<and> digits c"
    by blast
next
  assume "\<exists>a b c. w = a @ ''.'' @ b @ ''.'' @ c \<and> digits a \<and> digits b \<and> digits c"
  then obtain a b c where w: "w = a @ ''.'' @ b @ ''.'' @ c"
    and d: "digits a" "digits b" "digits c" by blast
  have "split_on CHR ''.'' w = [a, b, c]"
    using d by (simp add: w split_on_append split_on_whole digits_no_dot)
  with d show "dotted_version w" by (simp add: dotted_version_def)
qed



lemma dotted_version_lang: "dotted_version w = in_lang version_pattern w"
  unfolding dotted_version_shape in_lang_version by (rule refl)

lemma version_search_Some:
  assumes "search_from version_pattern s = Some m"
  shows "\<exists>pre post. s = pre @ m @ post \<and> dotted_version m \<and>
           (\<forall>pre' w post'. s = pre' @ w @ post' \<and> dotted_version w \<longrightarrow>
              length pre \<le> length pre' \<and> (length pre' = length pre \<longrightarrow> length w \<le> length m))"
proof -
  from search_from_Some [OF assms] obtain pre post where
    p: "s = pre @ m @ post" "match_here version_pattern (m @ post) = Some m"
       "\<forall>pre' w post'. s = pre' @ w @ post' \<and> in_lang version_pattern w \<longrightarrow> length pre \<le> length pre'"
    by blast
  have m: "dotted_version m"
    using match_here_sound [OF p(2)] by (simp add: dotted_version_lang)
  have "length pre \<le> length pre' \<and> (length pre' = length pre \<longrightarrow> length w \<le> length m)"
    if d: "s = pre' @ w @ post'" "dotted_version w" for pre' w post'
  proof -
    from d have w: "in_lang version_pattern w" by (simp add: dotted_version_lang)
    with p(3) d(1) have le: "length pre \<le> length pre'" by blast
    have "length w \<le> length m" if "length pre' = length pre"
    proof -
      from that p(1) d(1) have "m @ post = w @ post'" by simp
      with p(2) match_here_version [OF w, of post'] have "m = w @ takeWhile is_digit post'"
        by simp
      then show ?thesis by simp
    qed
    with le show ?thesis by simp
  qed
  with p(1) m show ?thesis by blast
qed

text \<open>
  Claim C3. When \<^verbatim>\<open>ccr version\<close> succeeds, \<^verbatim>\<open>getCcrVersion\<close> returns the first substring of
  its standard output that has the form digits.digits.digits: a substring of that form, such
  that no substring of that form starts further left, and none that starts at the same
  place is longer. It returns \<^verbatim>\<open>null\<close> when the output has no such substring.
\<close>

theorem getCcrVersion_first_match:
  assumes "sh ''ccr version'' = Exits d (Inr out)"
  shows "\<exists>v s'. getCcrVersion sh s = Some (Inr v, s') \<and>
     (case v of
        None \<Rightarrow> \<not> (\<exists>pre w post. stdout out = pre @ w @ post \<and> dotted_version w)
      | Some m \<Rightarrow>
          (\<exists>pre post. stdout out = pre @ m @ post \<and> dotted_version m \<and>
             (\<forall>pre' w post'. stdout out = pre' @ w @ post' \<and> dotted_version w \<longrightarrow>
                length pre \<le> length pre' \<and>
                (length pre' = length pre \<longrightarrow> length w \<le> length m))))"
proof (cases "search_from version_pattern (stdout out)")
  case None
  then have "getCcrVersion sh s = Some (Inr None, snd (the (getCcrVersion sh s)))"
    using assms by (simp add: getCcrVersion_def execAsync_cases match_version_def)
  moreover have "\<not> (\<exists>pre w post. stdout out = pre @ w @ post \<and> dotted_version w)"
    using search_from_None [OF None] by (auto simp: dotted_version_lang)
  ultimately show ?thesis
    by (intro exI [of _ None] exI [of _ "snd (the (getCcrVersion sh s))"]) simp
next
  case (Some m)
  then have "getCcrVersion sh s = Some (Inr (Some m), snd (the (getCcrVersion sh s)))"
    using assms by (simp add: getCcrVersion_def execAsync_cases match_version_def)
  then show ?thesis
    using version_search_Some [OF Some]
    by (intro exI [of _ "Some m"] exI [of _ "snd (the (getCcrVersion sh s))"]) simp
qed

lemma banner_version: "search_from version_pattern (stdout ccr_banner) = Some ''1.0.26''"
  by (simp add: ccr_banner_def version_pattern_def is_digit_def)

theorem getCcrVersion_first_match_witness:
  "has_ccr ''ccr version'' = Exits 40 (Inr ccr_banner) \<and>
   getCcrVersion has_ccr boot = Some (Inr (Some ''1.0.26''), after_version) \<and>
   stdout ccr_banner = ''claude-code-router version: '' @ ''1.0.26'' @ [] \<and>
   dotted_version ''1.0.26''"
proof -
  have h: "has_ccr ''ccr version'' = Exits 40 (Inr ccr_banner)"
    by (simp add: has_ccr_def)
  have g: "getCcrVersion has_ccr boot = Some (Inr (Some ''1.0.26''), after_version)"
    using h by (simp add: getCcrVersion_def execAsync_cases match_version_def banner_version
        boot_def after_version_def)
  from getCcrVersion_first_match [of has_ccr 40 ccr_banner boot] h g
  have "dotted_version ''1.0.26''" by auto
  with h g show ?thesis by (simp add: ccr_banner_def)
qed


section \<open>Properties of the AI personality wizard\<close>

lemma unconfigured_iff:
  "(case zcf st of None \<Rightarrow> True | Some c \<Rightarrow> aiPersonality c = None) \<Longrightarrow>
     getExistingPersonality st = None \<and> \<not> hasExistingPersonality st"
  by (auto simp add: getExistingPersonality_def hasExistingPersonality_def split: option.splits)

lemma configure_unconfigured:
  "getExistingPersonality st = None \<Longrightarrow>
     configureAiPersonality ev l showExisting ans st = select_personality ev l None ans st"
  by (simp add: configureAiPersonality_def Let_def)

lemma select_asks_first:
  "select_personality ev l ex ans st = Some st' \<Longrightarrow>
     take 1 (drop (length (asked st)) (asked st')) = [personality_prompt ev l ex]"
  by (auto simp: select_personality_def Let_def ask_def print_def apply_and_save_def
      updateZcfConfig_def applyPersonalityDirective_def writeFile_def
      split: if_splits option.splits sum.splits)

lemma select_settles:
  "personality ans \<noteq> ''custom'' \<Longrightarrow> \<exists>st'. select_personality ev l ex ans st = Some st'"
  by (simp add: select_personality_def Let_def)

text \<open>
  Claim C6. When there is no \<^verbatim>\<open>ZcfConfig\<close> record, or the record has no \<^verbatim>\<open>aiPersonality\<close>
  field, \<^verbatim>\<open>hasExistingPersonality\<close> is false, \<^verbatim>\<open>getExistingPersonality\<close> is \<^verbatim>\<open>null\<close>, and the
  personality prompt is asked first, with the first choice (index 0) as its default; a run
  in which the user picks a built-in personality completes.
\<close>

theorem unconfigured_personality_defaults:
  assumes "case zcf st of None \<Rightarrow> True | Some c \<Rightarrow> aiPersonality c = None"
  shows "\<not> hasExistingPersonality st \<and> getExistingPersonality st = None \<and>
         personality_prompt ev l (getExistingPersonality st) =
           ListPrompt ''personality''
             (orElse (selectAiPersonality (getTranslation ev l)) ''Select AI personality'')
             (personality_choices ev l) 0 \<and>
         (personality ans \<noteq> ''custom'' \<longrightarrow>
            (\<exists>st'. configureAiPersonality ev l showExisting ans st = Some st')) \<and>
         (\<forall>st'. configureAiPersonality ev l showExisting ans st = Some st' \<longrightarrow>
            take 1 (drop (length (asked st)) (asked st')) =
              [personality_prompt ev l (getExistingPersonality st)])"
proof -
  from assms have u: "getExistingPersonality st = None" "\<not> hasExistingPersonality st"
    using unconfigured_iff by blast+
  have c: "configureAiPersonality ev l showExisting ans st = select_personality ev l None ans st"
    using u(1) by (rule configure_unconfigured)
  show ?thesis
    using u c select_settles [of ans ev l None st] select_asks_first [of ev l None ans st]
    by (simp add: personality_prompt_def personality_default_def)
qed


lemma apply_fails:
  "write_error ev (personality_path ev) = Some e \<Longrightarrow>
     applyPersonalityDirective ev d st =
       print (failure_line (getTranslation ev (lang_on_record st)) e) st"
  by (simp add: applyPersonalityDirective_def writeFile_def Let_def)

lemma apply_and_save_fails:
  assumes "write_error ev (personality_path ev) = Some e"
  shows "apply_and_save ev l p d st =
     st\<lparr>zcf := zcf (updateZcfConfig \<lparr>preferredLang = None, aiPersonality = Some p\<rparr> st),
        screen := screen st @ [failure_line (getTranslation ev (lang_on_record st)) e,
                               success_line (getTranslation ev l)]\<rparr>"
  by (simp add: apply_and_save_def apply_fails [OF assms] updateZcfConfig_def print_def Let_def)

lemma saved_personality:
  "\<exists>z. zcf (updateZcfConfig \<lparr>preferredLang = None, aiPersonality = Some p\<rparr> st) = Some z \<and>
       aiPersonality z = Some p"
  by (simp add: updateZcfConfig_def Let_def)

lemma first_nonempty:
  "list_ex (\<lambda>v. v \<noteq> []) xs \<Longrightarrow> \<exists>d. find (\<lambda>v. v \<noteq> []) xs = Some d \<and> d \<noteq> []"
  by (induction xs) auto

lemma accepted_validate: "accepted (validate_directive i18n v) = (v \<noteq> [])"
  by (simp add: accepted_def validate_directive_def split: option.splits)

lemma select_despite_write_failure:
  assumes w: "write_error ev (personality_path ev) = Some e"
    and p: "personality ans \<noteq> []"
    and c: "personality ans = ''custom'' \<longrightarrow> list_ex (\<lambda>v. v \<noteq> []) (typed ans)"
  shows "\<exists>st'. select_personality ev l ex ans st = Some st' \<and> files st' = files st \<and>
     map_option aiPersonality (zcf st') = Some (Some (personality ans)) \<and>
     screen st' = screen st @ [failure_line (getTranslation ev (lang_on_record st)) e,
                               success_line (getTranslation ev l)]"
proof (cases "personality ans = ''custom''")
  case False
  let ?st1 = "ask (personality_prompt ev l ex) st"
  obtain d where "select_personality ev l ex ans st =
      Some (apply_and_save ev l (personality ans) d ?st1)"
    using p False by (simp add: select_personality_def Let_def)
  then show ?thesis
    by (simp add: apply_and_save_fails [OF w] saved_personality ask_def lang_on_record_def)
next
  case True
  with c obtain d where d: "find (\<lambda>v. v \<noteq> []) (typed ans) = Some d" "d \<noteq> []"
    using first_nonempty by blast
  then have i: "inquirer_input (validate_directive (getTranslation ev l)) (typed ans) = Some d"
    by (simp add: inquirer_input_def accepted_validate)
  let ?st2 = "ask (InputPrompt ''customDirective''
                 (orElse (enterCustomPersonality (getTranslation ev l))
                    ''Enter custom personality directive''))
               (ask (personality_prompt ev l ex) st)"
  have "select_personality ev l ex ans st =
      Some (apply_and_save ev l (personality ans) d ?st2)"
    using True i d(2) by (simp add: select_personality_def Let_def)
  then show ?thesis
    by (simp add: apply_and_save_fails [OF w] saved_personality ask_def lang_on_record_def)
qed

text \<open>
  Claim C10. When the write of \<^verbatim>\<open>personality.md\<close> throws, the error is caught and printed,
  nothing is written to disk, and the run still stores the chosen identifier in the
  \<^verbatim>\<open>ZcfConfig\<close> record and prints the success line last.
\<close>

theorem personality_saved_despite_write_failure:
  assumes w: "write_error ev (personality_path ev) = Some e"
    and p: "personality ans \<noteq> []"
    and g: "showExisting \<longrightarrow> modify ans"
    and c: "personality ans = ''custom'' \<longrightarrow> list_ex (\<lambda>v. v \<noteq> []) (typed ans)"
  shows "\<exists>st'. configureAiPersonality ev l showExisting ans st = Some st' \<and>
     files st' = files st \<and>
     map_option aiPersonality (zcf st') = Some (Some (personality ans)) \<and>
     (\<exists>ls. screen st' = screen st @ ls @
              [failure_line (getTranslation ev (lang_on_record st)) e,
               success_line (getTranslation ev l)])"
proof -
  obtain st0 ls where
    r: "configureAiPersonality ev l showExisting ans st =
          select_personality ev l (getExistingPersonality st) ans st0"
    and s0: "files st0 = files st" "zcf st0 = zcf st" "screen st0 = screen st @ ls"
  proof (cases "if showExisting then getExistingPersonality st else None")
    case None
    then have "configureAiPersonality ev l showExisting ans st =
        select_personality ev l (getExistingPersonality st) ans st"
      by (simp add: configureAiPersonality_def Let_def)
    then show ?thesis using that [of st "[]"] by simp
  next
    case (Some x)
    show ?thesis
    proof (cases "getPersonalityInfo ev x")
      case None
      with Some have "configureAiPersonality ev l showExisting ans st =
          select_personality ev l (getExistingPersonality st) ans st"
        by (simp add: configureAiPersonality_def Let_def)
      then show ?thesis using that [of st "[]"] by simp
    next
      case (Some info)
      from \<open>(if showExisting then getExistingPersonality st else None) = Some x\<close>
      have "showExisting" by (simp split: if_splits)
      with g have m: "modify ans" by simp
      let ?st3 = "ask (Confirm ''modify''
            (orElse (modifyPersonality (getTranslation ev l)) ''Modify AI personality?'') False)
          (print (say Stdout Gray NoGlyph
             (''  '' @ orElse (currentPersonality (getTranslation ev l)) ''Current personality''
              @ '': '' @ name info l))
            (print (say Stdout Blue InfoSign
               (orElse (existingPersonality (getTranslation ev l))
                  ''Existing AI personality configuration'')) st))"
      have "configureAiPersonality ev l showExisting ans st =
          select_personality ev l (getExistingPersonality st) ans ?st3"
        using Some \<open>(if showExisting then getExistingPersonality st else None) = Some x\<close> m
        by (simp add: configureAiPersonality_def Let_def)
      then show ?thesis
        using that [of ?st3] by (simp add: ask_def print_def)
    qed
  qed
  have "lang_on_record st0 = lang_on_record st"
    using s0(2) by (simp add: lang_on_record_def)
  with select_despite_write_failure [OF w p c, of l "getExistingPersonality st" st0] r s0
  show ?thesis by auto
qed

lemma mentor_directive:
  "find (\<lambda>p. ident p = ''mentor'') (AI_PERSONALITIES ev) =
     Some \<lparr>ident = ''mentor'',
       name = bilingual ev ''Mentor Mode'',
       directive = bilingual ev
         ''You are an experienced programming mentor. You not only provide solutions but also explain the principles behind them, guide users to think, and cultivate their ability to solve problems independently.''\<rparr>"
  by (simp add: AI_PERSONALITIES_def)

lemma locked_run:
  "configureAiPersonality locked_home En False picks_mentor fresh =
     Some \<lparr>zcf = Some \<lparr>preferredLang = None, aiPersonality = Some ''mentor''\<rparr>,
           files = Map.empty,
           screen = [failure_line english eacces, success_line english],
           asked = [personality_prompt locked_home En None]\<rparr>"
  by (simp add: configureAiPersonality_def select_personality_def Let_def picks_mentor_def
      mentor_directive apply_and_save_def applyPersonalityDirective_def writeFile_def
      updateZcfConfig_def print_def ask_def fresh_def locked_home_def
      getExistingPersonality_def lang_on_record_def)

lemma locked_custom_run:
  "configureAiPersonality locked_home En True writes_own fresh =
     Some \<lparr>zcf = Some \<lparr>preferredLang = None, aiPersonality = Some ''custom''\<rparr>,
           files = Map.empty,
           screen = [failure_line english eacces, success_line english],
           asked = [personality_prompt locked_home En None,
                    InputPrompt ''customDirective'' ''Enter custom personality directive'']\<rparr>"
  by (simp add: configureAiPersonality_def select_personality_def Let_def writes_own_def
      inquirer_input_def accepted_validate apply_and_save_def applyPersonalityDirective_def
      writeFile_def updateZcfConfig_def print_def ask_def fresh_def locked_home_def
      getExistingPersonality_def lang_on_record_def english_def orElse_def)

text \<open>For contrast: on a disk that can be written, the same run leaves the directive in the file.\<close>

lemma open_custom_run:
  "map_option (\<lambda>st. files st (personality_path open_home))
     (configureAiPersonality open_home En True writes_own fresh) = Some (Some ''Be terse.'')"
  by (simp add: configureAiPersonality_def select_personality_def Let_def writes_own_def
      inquirer_input_def accepted_validate apply_and_save_def applyPersonalityDirective_def
      writeFile_def updateZcfConfig_def print_def ask_def fresh_def locked_home_def open_home_def
      getExistingPersonality_def personality_path_def)

theorem personality_saved_despite_write_failure_witness:
  "write_error locked_home (personality_path locked_home) = Some eacces \<and>
   personality picks_mentor \<noteq> [] \<and>
   configureAiPersonality locked_home En False picks_mentor fresh =
     Some \<lparr>zcf = Some \<lparr>preferredLang = None, aiPersonality = Some ''mentor''\<rparr>,
           files = Map.empty,
           screen = [failure_line english eacces, success_line english],
           asked = [personality_prompt locked_home En None]\<rparr> \<and>
   personality writes_own = ''custom'' \<and> modify writes_own \<and>
   list_ex (\<lambda>v. v \<noteq> []) (typed writes_own) \<and>
   configureAiPersonality locked_home En True writes_own fresh =
     Some \<lparr>zcf = Some \<lparr>preferredLang = None, aiPersonality = Some ''custom''\<rparr>,
           files = Map.empty,
           screen = [failure_line english eacces, success_line english],
           asked = [personality_prompt locked_home En None,
                    InputPrompt ''customDirective'' ''Enter custom personality directive'']\<rparr>"
  using personality_saved_despite_write_failure [of locked_home eacces picks_mentor False En fresh]
    personality_saved_despite_write_failure [of locked_home eacces writes_own True En fresh]
    locked_run locked_custom_run
  by (simp add: locked_home_def picks_mentor_def writes_own_def)

theorem unconfigured_personality_defaults_witness:
  "(case zcf fresh of None \<Rightarrow> True | Some c \<Rightarrow> aiPersonality c = None) \<and>
   \<not> hasExistingPersonality fresh \<and> getExistingPersonality fresh = None \<and>
   map_option asked (configureAiPersonality locked_home En False picks_mentor fresh) =
     Some [ListPrompt ''personality'' ''Select AI personality'' (personality_choices locked_home En) 0]"
proof -
  have f: "case zcf fresh of None \<Rightarrow> True | Some c \<Rightarrow> aiPersonality c = None"
    by (simp add: fresh_def)
  have e: "selectAiPersonality (getTranslation locked_home En) = None"
    by (simp add: locked_home_def english_def)
  from unconfigured_personality_defaults [OF f, of locked_home En picks_mentor False] f e
  show ?thesis
    by (auto simp: locked_run orElse_def)
qed

section \<open>Properties of the command line\<close>

lemma no_flags_fields:
  "init no_flags = None" "lang no_flags = None" "configLang no_flags = None" "force no_flags = None"
  by (simp_all add: no_flags_def no_init_options_def InitOptions.defs CliOptions.defs)

text \<open>
  Claim C8. The default command shows the interactive menu and does not run the
  initialization, unless \<^verbatim>\<open>--init\<close> was given; with \<^verbatim>\<open>--init\<close> it runs the initialization and
  not the menu. In particular an invocation with no argument and no flag shows the menu.
\<close>

theorem default_command_menu_or_init:
  "handleDefaultCommand l options =
     (if init options = Some True
      then [CallInit (no_init_options\<lparr>lang := or_undefined l (lang options),
                                       configLang := configLang options,
                                       force := force options\<rparr>)]
      else [CallShowMainMenu]) \<and>
   setupCommands [] no_flags = [CallShowMainMenu] \<and>
   \<not> list_ex is_init_call (setupCommands [] no_flags) \<and>
   setupCommands [] (no_flags\<lparr>init := Some True\<rparr>) = [CallInit no_init_options]"
  by (simp add: handleDefaultCommand_def setupCommands_def no_flags_fields no_init_options_def
      or_undefined_def is_init_call_def)

section \<open>Properties of the configuration merge\<close>










end
